theory Spec2Isabelle
  imports Main "HOL-Library.Char_ord" "HOL-Library.List_Lexorder"
begin

section \<open>The platform: header collections, requests, responses\<close>

text \<open>
  The engine \<open>cors.ts\<close> is written against the Fetch API. Its \<open>Headers\<close> class is modelled
  as the header list of the Fetch standard: an ordered list of name/value pairs whose names
  are compared case-insensitively. \<open>get\<close> combines the values of a name with a comma and a
  space, \<open>set\<close> overwrites the first entry of a name and removes the others, \<open>append\<close>
  adds an entry at the end, and \<open>forEach\<close> visits the lower-cased names in sorted order,
  each with its combined value.

  Values are taken as the platform stores them: the validation and normalisation of header
  names and values and the immutable guard of a header collection are the platform's and
  are not part of the model. A regular expression is the predicate its \<open>test\<close> method
  computes (no \<open>g\<close> or \<open>y\<close> flag, so no \<open>lastIndex\<close> state), and an origin function is a
  function from its two arguments to the settlement of the promise it returns.
\<close>

type_synonym header_list = "(string \<times> string) list"

text \<open>An upper-case ASCII letter differs from its lower-case form in bit 5 only.\<close>

fun toLowerChar :: "char \<Rightarrow> char" where
  "toLowerChar (Char b0 b1 b2 b3 b4 b5 b6 b7) =
     (if CHR ''A'' \<le> Char b0 b1 b2 b3 b4 b5 b6 b7 \<and> Char b0 b1 b2 b3 b4 b5 b6 b7 \<le> CHR ''Z''
      then Char b0 b1 b2 b3 b4 True b6 b7
      else Char b0 b1 b2 b3 b4 b5 b6 b7)"

definition toLowerCase :: "string \<Rightarrow> string" where
  "toLowerCase s = map toLowerChar s"

definition same_name :: "string \<Rightarrow> string \<Rightarrow> bool" where
  "same_name a b = (toLowerCase a = toLowerCase b)"

text \<open>\<open>Array.prototype.join\<close> on an array of strings.\<close>

fun join :: "string \<Rightarrow> string list \<Rightarrow> string" where
  "join sep [] = []"
| "join sep [x] = x"
| "join sep (x # y # ys) = x @ sep @ join sep (y # ys)"

definition headers_values :: "header_list \<Rightarrow> string \<Rightarrow> string list" where
  "headers_values h name = map snd (filter (\<lambda>e. same_name (fst e) name) h)"

definition headers_has :: "header_list \<Rightarrow> string \<Rightarrow> bool" where
  "headers_has h name = (headers_values h name \<noteq> [])"

definition headers_get :: "header_list \<Rightarrow> string \<Rightarrow> string option" where
  "headers_get h name =
     (if headers_has h name then Some (join '', '' (headers_values h name)) else None)"

definition headers_append :: "header_list \<Rightarrow> string \<Rightarrow> string \<Rightarrow> header_list" where
  "headers_append h name v = h @ [(name, v)]"

fun set_first :: "string \<Rightarrow> string \<Rightarrow> header_list \<Rightarrow> header_list" where
  "set_first name v [] = []"
| "set_first name v (e # h) =
     (if same_name (fst e) name
      then (fst e, v) # filter (\<lambda>e'. \<not> same_name (fst e') name) h
      else e # set_first name v h)"

definition headers_set :: "header_list \<Rightarrow> string \<Rightarrow> string \<Rightarrow> header_list" where
  "headers_set h name v =
     (if headers_has h name then set_first name v h else h @ [(name, v)])"

text \<open>
  The pairs \<open>forEach\<close> visits: the lower-cased names, sorted and without duplicates, each
  with its combined value (\<open>set-cookie\<close> keeps its values apart).
\<close>

definition headers_entries :: "header_list \<Rightarrow> (string \<times> string) list" where
  "headers_entries h =
     concat (map (\<lambda>n. if n = ''set-cookie'' then map (Pair n) (headers_values h n)
                       else [(n, join '', '' (headers_values h n))])
                 (sort (remdups (map (\<lambda>e. toLowerCase (fst e)) h))))"

text \<open>\<open>src.forEach(f)\<close> with a callback \<open>f (value, key)\<close> that mutates the collection \<open>dst\<close>.\<close>

definition headers_forEach ::
  "header_list \<Rightarrow> (header_list \<Rightarrow> string \<Rightarrow> string \<Rightarrow> header_list) \<Rightarrow> header_list \<Rightarrow> header_list" where
  "headers_forEach src f dst = foldl (\<lambda>acc e. f acc (snd e) (fst e)) dst (headers_entries src)"

record request =
  req_method :: string
  req_headers :: header_list

record response =
  res_status :: int
  res_headers :: header_list
  res_body :: "string option"

text \<open>
  A number of the options is a double. An integer between \<open>-2^53\<close> and \<open>2^53\<close> is held
  exactly, and the platform's operations on it are integer arithmetic. Every other number
  (a larger integer, a fraction, \<open>NaN\<close>, an infinity) is given by what the platform returns
  for it in the two places where \<open>cors.ts\<close> uses a number: the string \<open>String\<close> returns
  and the unsigned short the \<open>Response\<close> constructor converts a status to.
\<close>

typedef safe_integer = "{n :: int. - (2 ^ 53) \<le> n \<and> n \<le> 2 ^ 53}"
  by (rule exI[of _ 0]) simp

setup_lifting type_definition_safe_integer

lift_definition safe_0 :: safe_integer is 0
  by simp

lift_definition safe_99 :: safe_integer is 99
  by simp

lift_definition safe_204 :: safe_integer is 204
  by simp

datatype number = Integer safe_integer | Other string nat

text \<open>
  The conversion of a number to an unsigned short, as Web IDL defines it for the \<open>status\<close>
  of a \<open>ResponseInit\<close>: the integer modulo \<open>2^16\<close>.
\<close>

fun to_unsigned_short :: "number \<Rightarrow> nat" where
  "to_unsigned_short (Integer i) = nat (Rep_safe_integer i mod 65536)"
| "to_unsigned_short (Other s u) = u mod 65536"

text \<open>The status a \<open>ResponseInit\<close> gives: 200 when \<open>status\<close> is \<open>undefined\<close>.\<close>

definition init_status :: "number option \<Rightarrow> nat" where
  "init_status st = (case st of None \<Rightarrow> 200 | Some n \<Rightarrow> to_unsigned_short n)"

text \<open>
  \<open>new Response(null, { status, headers })\<close>: the constructor throws a \<open>RangeError\<close> unless
  the status is between 200 and 599; otherwise the response has an empty body and a copy
  of the header collection.
\<close>

definition new_Response :: "number option \<Rightarrow> header_list \<Rightarrow> string + response" where
  "new_Response st h =
     (if 200 \<le> init_status st \<and> init_status st \<le> 599
      then Inr \<lparr>res_status = int (init_status st), res_headers = h, res_body = None\<rparr>
      else Inl ''RangeError'')"

text \<open>
  \<open>String(n)\<close>: the decimal digits of a safe integer, with a minus sign when it is
  negative.
\<close>

definition digit :: "nat \<Rightarrow> char" where
  "digit d = ''0123456789'' ! d"

fun digits :: "nat \<Rightarrow> string" where
  "digits n = (if n < 10 then [digit n] else digits (n div 10) @ [digit (n mod 10)])"

declare digits.simps [simp del]

fun String_of_number :: "number \<Rightarrow> string" where
  "String_of_number (Integer i) =
     (if Rep_safe_integer i < 0 then CHR ''-'' # digits (nat (- Rep_safe_integer i))
      else digits (nat (Rep_safe_integer i)))"
| "String_of_number (Other s u) = s"

text \<open>The number a string of decimal digits denotes, to state what \<open>String\<close> returns.\<close>

definition decimal_value :: "string \<Rightarrow> nat" where
  "decimal_value s = foldl (\<lambda>a c. 10 * a + (of_char c - 48)) 0 s"

section \<open>The data model of \<open>cors.ts\<close>\<close>

text \<open>
  A promise is modelled by how it settles: fulfilled with a value, rejected with a reason,
  or \<open>Pending\<close>, the promise that never settles.
\<close>

datatype ('a, 'e) promise = Fulfilled 'a | Rejected 'e | Pending

text \<open>
  \<open>StaticOrigin\<close>: a boolean, a string, a regular expression or an array of those.
  \<open>isOriginAllowed\<close> recurses into arrays, so the arrays of the model nest as the code
  allows at run time.
\<close>

datatype StaticOrigin =
    OBool bool
  | OStr string
  | ORegExp "string \<Rightarrow> bool"
  | OArray "StaticOrigin list"

datatype origin_option =
    Static StaticOrigin
  | OriginFn "string option \<Rightarrow> request \<Rightarrow> (StaticOrigin, string) promise"

datatype string_or_array = Str string | Arr "string list"

text \<open>
  A property of an options object: the key is missing, or it is an own key whose value is
  \<open>undefined\<close> (\<open>Present None\<close>) or a value. Reading a missing key gives \<open>undefined\<close>.
\<close>

datatype 'a property = Absent | Present "'a option"

fun read :: "'a property \<Rightarrow> 'a option" where
  "read Absent = None"
| "read (Present v) = v"

record CorsOptions =
  origin :: "origin_option property"
  methods :: "string_or_array property"
  allowedHeaders :: "string_or_array property"
  exposedHeaders :: "string_or_array property"
  credentials :: "bool property"
  maxAge :: "number property"
  preflightContinue :: "bool property"
  optionsSuccessStatus :: "number property"

definition defaultOptions :: CorsOptions where
  "defaultOptions =
     \<lparr>origin = Present (Some (Static (OStr ''*''))),
      methods = Present (Some (Str ''GET,HEAD,PUT,PATCH,POST,DELETE'')),
      allowedHeaders = Absent,
      exposedHeaders = Absent,
      credentials = Absent,
      maxAge = Absent,
      preflightContinue = Present (Some False),
      optionsSuccessStatus = Present (Some (Integer safe_204))\<rparr>"

text \<open>
  The object spread \<open>{ ...defaultOptions, ...options }\<close>: every own key of \<open>options\<close>,
  also one whose value is \<open>undefined\<close>, replaces the default; \<open>options\<close> itself may be
  \<open>undefined\<close>.
\<close>

fun over :: "'a property \<Rightarrow> 'a property \<Rightarrow> 'a property" where
  "over d Absent = d"
| "over d (Present v) = Present v"

definition spread :: "CorsOptions \<Rightarrow> CorsOptions option \<Rightarrow> CorsOptions" where
  "spread d options =
     (case options of
        None \<Rightarrow> d
      | Some c \<Rightarrow>
          \<lparr>origin = over (origin d) (origin c),
           methods = over (methods d) (methods c),
           allowedHeaders = over (allowedHeaders d) (allowedHeaders c),
           exposedHeaders = over (exposedHeaders d) (exposedHeaders c),
           credentials = over (credentials d) (credentials c),
           maxAge = over (maxAge d) (maxAge c),
           preflightContinue = over (preflightContinue d) (preflightContinue c),
           optionsSuccessStatus = over (optionsSuccessStatus d) (optionsSuccessStatus c)\<rparr>)"

text \<open>
  The objects a call can reach: the \<open>Response\<close> objects and the options objects of the
  caller, each addressed by its index. A reference is an index into its list.
\<close>

record state =
  responses :: "response list"
  configs :: "CorsOptions list"

text \<open>A write to the header collection of the response \<open>res\<close>, which is mutated in place.\<close>

definition write_headers :: "state \<Rightarrow> nat \<Rightarrow> header_list \<Rightarrow> state" where
  "write_headers w res h =
     w\<lparr>responses := (responses w)[res := (responses w ! res)\<lparr>res_headers := h\<rparr>]\<rparr>"

text \<open>The allocation of a new \<open>Response\<close> object: the new state and the new reference.\<close>

definition alloc :: "state \<Rightarrow> response \<Rightarrow> state \<times> nat" where
  "alloc w r = (w\<lparr>responses := responses w @ [r]\<rparr>, length (responses w))"

section \<open>The functions of \<open>cors.ts\<close>\<close>

fun isOriginAllowed :: "string \<Rightarrow> StaticOrigin \<Rightarrow> bool" where
  "isOriginAllowed origin' (OArray allowed) = list_ex (isOriginAllowed origin') allowed"
| "isOriginAllowed origin' (OStr allowed) = (origin' = allowed)"
| "isOriginAllowed origin' (ORegExp allowed) = allowed origin'"
| "isOriginAllowed origin' (OBool allowed) = allowed"

text \<open>The truthiness of a resolved origin: \<open>false\<close> and the empty string are falsy.\<close>

fun truthy :: "StaticOrigin \<Rightarrow> bool" where
  "truthy (OBool b) = b"
| "truthy (OStr s) = (s \<noteq> [])"
| "truthy (ORegExp r) = True"
| "truthy (OArray xs) = True"

definition getOriginHeaders :: "string option \<Rightarrow> StaticOrigin \<Rightarrow> header_list" where
  "getOriginHeaders reqOrigin origin' =
     (let headers = [] in
      case origin' of
        OStr s \<Rightarrow>
          if s = ''*'' then headers_set headers ''Access-Control-Allow-Origin'' ''*''
          else headers_append (headers_set headers ''Access-Control-Allow-Origin'' s)
                 ''Vary'' ''Origin''
      | _ \<Rightarrow>
          (let allowed = isOriginAllowed (case reqOrigin of None \<Rightarrow> [] | Some s \<Rightarrow> s) origin';
               headers =
                 (case reqOrigin of
                    Some s \<Rightarrow>
                      if allowed \<and> s \<noteq> []
                      then headers_set headers ''Access-Control-Allow-Origin'' s
                      else headers
                  | None \<Rightarrow> headers)
           in headers_append headers ''Vary'' ''Origin''))"

text \<open>
  \<open>req.headers.get('Origin') || undefined\<close>: a missing and an empty \<open>Origin\<close> header are
  both \<open>undefined\<close>.
\<close>

definition request_origin :: "request \<Rightarrow> string option" where
  "request_origin req =
     (case headers_get (req_headers req) ''Origin'' of
        None \<Rightarrow> None
      | Some s \<Rightarrow> if s = [] then None else Some s)"

text \<open>The constant \<open>value\<close> of \<open>originHeadersFromReq\<close>: the origin, awaited if it is a function.\<close>

definition origin_value ::
  "request \<Rightarrow> origin_option \<Rightarrow> (StaticOrigin, string) promise" where
  "origin_value req origin' =
     (case origin' of
        OriginFn f \<Rightarrow> f (request_origin req) req
      | Static v \<Rightarrow> Fulfilled v)"

definition originHeadersFromReq ::
  "request \<Rightarrow> origin_option \<Rightarrow> (header_list option, string) promise" where
  "originHeadersFromReq req origin' =
     (case origin_value req origin' of
        Rejected e \<Rightarrow> Rejected e
      | Pending \<Rightarrow> Pending
      | Fulfilled v \<Rightarrow>
          if \<not> truthy v then Fulfilled None
          else Fulfilled (Some (getOriginHeaders (request_origin req) v)))"

definition getAllowedHeaders :: "request \<Rightarrow> string_or_array option \<Rightarrow> header_list" where
  "getAllowedHeaders req allowed =
     (let headers = [];
          (allowed', headers) =
            (case allowed of
               None \<Rightarrow>
                 (headers_get (req_headers req) ''Access-Control-Request-Headers'',
                  headers_append headers ''Vary'' ''Access-Control-Request-Headers'')
             | Some (Arr xs) \<Rightarrow> (Some (join '','' xs), headers)
             | Some (Str s) \<Rightarrow> (Some s, headers))
      in case allowed' of
           Some s \<Rightarrow>
             if s \<noteq> [] then headers_set headers ''Access-Control-Allow-Headers'' s else headers
         | None \<Rightarrow> headers)"

definition mergeHeaders :: "header_list \<Rightarrow> string \<Rightarrow> string \<Rightarrow> header_list" where
  "mergeHeaders headers v k =
     (if k = ''vary'' then headers_append headers k v else headers_set headers k v)"

text \<open>The constant \<open>opts\<close> of \<open>cors\<close>: \<open>{ ...defaultOptions, ...options }\<close>.\<close>

definition opts_of :: "state \<Rightarrow> nat option \<Rightarrow> CorsOptions" where
  "opts_of w options = spread defaultOptions (map_option (nth (configs w)) options)"

text \<open>The argument \<open>opts.origin ?? false\<close> of \<open>originHeadersFromReq\<close>.\<close>

definition origin_arg :: "CorsOptions \<Rightarrow> origin_option" where
  "origin_arg opts = (case read (origin opts) of None \<Rightarrow> Static (OBool False) | Some x \<Rightarrow> x)"

text \<open>
  Lines 192 to 204 of \<open>cors\<close>, run for every request whose origin headers exist: the
  origin headers are merged, then the credentials and the exposed headers are set.
\<close>

definition common_headers :: "CorsOptions \<Rightarrow> header_list \<Rightarrow> header_list \<Rightarrow> header_list" where
  "common_headers opts originHeaders headers =
     (let headers = headers_forEach originHeaders mergeHeaders headers;
          headers =
            (if read (credentials opts) = Some True
             then headers_set headers ''Access-Control-Allow-Credentials'' ''true''
             else headers);
          exposed =
            (case read (exposedHeaders opts) of
               Some (Arr xs) \<Rightarrow> Some (join '','' xs)
             | Some (Str s) \<Rightarrow> Some s
             | None \<Rightarrow> None)
      in case exposed of
           Some s \<Rightarrow>
             if s \<noteq> [] then headers_set headers ''Access-Control-Expose-Headers'' s
             else headers
         | None \<Rightarrow> headers)"

text \<open>
  Lines 208 to 220 of \<open>cors\<close>, the head of the preflight block: the methods, the allowed
  headers and the maximum age.
\<close>

definition preflight_headers :: "CorsOptions \<Rightarrow> request \<Rightarrow> header_list \<Rightarrow> header_list" where
  "preflight_headers opts req headers =
     (let headers =
            (case read (methods opts) of
               Some (Arr xs) \<Rightarrow>
                 headers_set headers ''Access-Control-Allow-Methods'' (join '','' xs)
             | Some (Str s) \<Rightarrow>
                 if s \<noteq> [] then headers_set headers ''Access-Control-Allow-Methods'' s
                 else headers
             | None \<Rightarrow> headers);
          headers =
            headers_forEach (getAllowedHeaders req (read (allowedHeaders opts)))
              mergeHeaders headers
      in case read (maxAge opts) of
           Some n \<Rightarrow> headers_set headers ''Access-Control-Max-Age'' (String_of_number n)
         | None \<Rightarrow> headers)"

text \<open>
  \<open>cors (req, res, options)\<close>. The response is passed by reference, the options by
  reference or as \<open>undefined\<close>; the result is the settlement of the promise \<open>cors\<close> returns:
  fulfilled with the state it leaves and the reference of the response it resolves to, or
  rejected with the state it leaves and the reason (the rejection of the origin function,
  or the \<open>RangeError\<close> of the \<open>Response\<close> constructor). The local \<open>headers\<close> is the header
  collection of \<open>res\<close>, mutated in place: every exit after a mutation writes it back to
  \<open>res\<close>.
\<close>

definition cors ::
  "state \<Rightarrow> request \<Rightarrow> nat \<Rightarrow> nat option \<Rightarrow> (state \<times> nat, state \<times> string) promise" where
  "cors w req res options =
     (let opts = opts_of w options;
          headers = res_headers (responses w ! res)
      in case originHeadersFromReq req (origin_arg opts) of
           Rejected e \<Rightarrow> Rejected (w, e)
         | Pending \<Rightarrow> Pending
         | Fulfilled None \<Rightarrow> Fulfilled (w, res)
         | Fulfilled (Some originHeaders) \<Rightarrow>
             (let headers = common_headers opts originHeaders headers
              in if req_method req = ''OPTIONS'' then
                   (let headers = preflight_headers opts req headers
                    in if read (preflightContinue opts) = Some True
                       then Fulfilled (write_headers w res headers, res)
                       else
                         (let headers = headers_set headers ''Content-Length'' ''0''
                          in case new_Response (read (optionsSuccessStatus opts)) headers of
                               Inl e \<Rightarrow> Rejected (write_headers w res headers, e)
                             | Inr r \<Rightarrow> Fulfilled (alloc (write_headers w res headers) r)))
                 else Fulfilled (write_headers w res headers, res)))"

section \<open>Example objects\<close>

text \<open>The options object \<open>{}\<close>.\<close>

definition empty_options :: CorsOptions where
  "empty_options =
     \<lparr>origin = Absent, methods = Absent, allowedHeaders = Absent, exposedHeaders = Absent,
      credentials = Absent, maxAge = Absent, preflightContinue = Absent,
      optionsSuccessStatus = Absent\<rparr>"

text \<open>A JSON response that already varies on \<open>Foo\<close>.\<close>

definition example_response :: response where
  "example_response =
     \<lparr>res_status = 200,
      res_headers = [(''Content-Type'', ''application/json''), (''Vary'', ''Foo'')],
      res_body = Some ''{}''\<rparr>"

text \<open>
  A state with one response and the options objects \<open>{ origin: false }\<close>,
  \<open>{ maxAge: 0 }\<close>, \<open>{ preflightContinue: true }\<close>, \<open>{ origin: 'https://vercel.com' }\<close>,
  \<open>{ origin: ['*'] }\<close>, \<open>{ optionsSuccessStatus: undefined }\<close> and
  \<open>{ optionsSuccessStatus: 99 }\<close>, in this order.
\<close>

definition example_state :: state where
  "example_state =
     \<lparr>responses = [example_response],
      configs =
        [empty_options\<lparr>origin := Present (Some (Static (OBool False)))\<rparr>,
         empty_options\<lparr>maxAge := Present (Some (Integer safe_0))\<rparr>,
         empty_options\<lparr>preflightContinue := Present (Some True)\<rparr>,
         empty_options\<lparr>origin := Present (Some (Static (OStr ''https://vercel.com'')))\<rparr>,
         empty_options\<lparr>origin := Present (Some (Static (OArray [OStr ''*''])))\<rparr>,
         empty_options\<lparr>optionsSuccessStatus := Present None\<rparr>,
         empty_options\<lparr>optionsSuccessStatus := Present (Some (Integer safe_99))\<rparr>]\<rparr>"

definition example_get :: request where
  "example_get =
     \<lparr>req_method = ''GET'', req_headers = [(''Origin'', ''https://vercel.com'')]\<rparr>"

definition example_preflight :: request where
  "example_preflight =
     \<lparr>req_method = ''OPTIONS'',
      req_headers =
        [(''Origin'', ''https://vercel.com''),
         (''Access-Control-Request-Headers'', ''x-header-1, x-header-2'')]\<rparr>"

section \<open>Facts about header collections\<close>

lemma toLowerChar_idem: "toLowerChar (toLowerChar c) = toLowerChar c"
  by (cases c) auto

lemma toLowerCase_idem: "toLowerCase (toLowerCase s) = toLowerCase s"
  by (simp add: toLowerCase_def toLowerChar_idem)

lemma values_append:
  "headers_values (headers_append h k v) n =
     headers_values h n @ (if same_name k n then [v] else [])"
  by (simp add: headers_values_def headers_append_def)

lemma values_set_first_other:
  "\<not> same_name k n \<Longrightarrow> headers_values (set_first k v h) n = headers_values h n"
proof (induction h)
  case Nil
  then show ?case by simp
next
  case (Cons e h)
  have "filter (\<lambda>x. same_name (fst x) n) (filter (\<lambda>e'. \<not> same_name (fst e') k) h)
        = filter (\<lambda>x. same_name (fst x) n) h"
    using Cons.prems by (induction h) (auto simp: same_name_def)
  with Cons show ?case
    by (auto simp: headers_values_def same_name_def)
qed

lemma values_set_first_same:
  "same_name k n \<Longrightarrow> headers_has h k \<Longrightarrow> headers_values (set_first k v h) n = [v]"
proof (induction h)
  case Nil
  then show ?case by (simp add: headers_has_def headers_values_def)
next
  case (Cons e h)
  have "filter (\<lambda>x. same_name (fst x) n) (filter (\<lambda>e'. \<not> same_name (fst e') k) h) = []"
    using Cons.prems(1) by (induction h) (auto simp: same_name_def)
  with Cons show ?case
    by (auto simp: headers_values_def headers_has_def same_name_def)
qed

text \<open>What \<open>set\<close> leaves under every name: the new value alone, or what was there.\<close>

lemma values_set:
  "headers_values (headers_set h k v) n = (if same_name k n then [v] else headers_values h n)"
proof (cases "same_name k n")
  case True
  then show ?thesis
    by (auto simp: headers_set_def values_set_first_same)
       (auto simp: headers_values_def headers_has_def same_name_def)
next
  case False
  have "headers_values (h @ [(k, v)]) n = headers_values h n"
    using False by (simp add: headers_values_def)
  with False show ?thesis
    by (simp add: headers_set_def values_set_first_other)
qed

lemma set_empty: "headers_set [] k v = [(k, v)]"
  by (simp add: headers_set_def headers_has_def headers_values_def)

lemma join_snoc:
  "join sep (xs @ [v]) = (if xs = [] then v else join sep xs @ sep @ v)"
  by (induction sep xs rule: join.induct) auto

lemma get_append_same:
  "same_name k n \<Longrightarrow>
   headers_get (headers_append h k v) n =
     Some (case headers_get h n of None \<Rightarrow> v | Some old \<Rightarrow> old @ '', '' @ v)"
  by (simp add: headers_get_def headers_has_def values_append join_snoc)

lemma entries_lower:
  "(k, v) \<in> set (headers_entries oh) \<Longrightarrow> toLowerCase k = k"
proof -
  have "toLowerCase ''set-cookie'' = ''set-cookie''"
    by (simp add: toLowerCase_def)
  then show "(k, v) \<in> set (headers_entries oh) \<Longrightarrow> toLowerCase k = k"
    by (auto simp: headers_entries_def toLowerCase_idem split: if_splits)
qed

section \<open>The decimal representation of a number\<close>

lemma of_char_digit: "d < 10 \<Longrightarrow> of_char (digit d) = 48 + d"
proof -
  assume "d < 10"
  then have "d \<in> {0, 1, 2, 3, 4, 5, 6, 7, 8, 9}" by auto
  then show ?thesis by (auto simp: digit_def)
qed

lemma decimal_value_snoc: "decimal_value (s @ [c]) = 10 * decimal_value s + (of_char c - 48)"
  by (simp add: decimal_value_def)

lemma decimal_value_digits: "decimal_value (digits n) = n"
proof (induction n rule: digits.induct)
  case (1 n)
  show ?case
  proof (cases "n < 10")
    case True
    then show ?thesis
      by (subst digits.simps) (simp add: decimal_value_def of_char_digit)
  next
    case False
    with 1 have "decimal_value (digits (n div 10)) = n div 10" by simp
    with False show ?thesis
      by (subst digits.simps) (simp add: decimal_value_snoc of_char_digit)
  qed
qed

lemma digits_chars: "set (digits n) \<subseteq> set ''0123456789''"
proof (induction n rule: digits.induct)
  case (1 n)
  have d: "digit k \<in> set ''0123456789''" if "k < 10" for k
  proof -
    from that have "k \<in> {0, 1, 2, 3, 4, 5, 6, 7, 8, 9}" by auto
    then show ?thesis by (auto simp: digit_def)
  qed
  show ?case
  proof (cases "n < 10")
    case True
    then show ?thesis
      using d[of n] by (subst digits.simps) simp
  next
    case False
    with 1 have "set (digits (n div 10)) \<subseteq> set ''0123456789''" by simp
    with False show ?thesis
      using d[of "n mod 10"] by (subst digits.simps) simp
  qed
qed

lemma String_of_number_0: "String_of_number (Integer safe_0) = ''0''"
  by (simp add: safe_0.rep_eq digits.simps[of 0] digit_def)

lemma init_status_default: "init_status (Some (Integer safe_204)) = 204"
  by (simp add: init_status_def safe_204.rep_eq)

lemma String_of_number_decimal:
  "0 \<le> Rep_safe_integer i \<Longrightarrow>
   decimal_value (String_of_number (Integer i)) = nat (Rep_safe_integer i)
   \<and> set (String_of_number (Integer i)) \<subseteq> set ''0123456789''"
  "Rep_safe_integer i < 0 \<Longrightarrow>
   \<exists>ds. String_of_number (Integer i) = CHR ''-'' # ds
      \<and> decimal_value ds = nat (- Rep_safe_integer i) \<and> set ds \<subseteq> set ''0123456789''"
  using digits_chars by (simp_all add: decimal_value_digits)

section \<open>The shapes of the computed header collections\<close>

lemma goh_star: "getOriginHeaders ro (OStr ''*'') = [(''Access-Control-Allow-Origin'', ''*'')]"
  by (simp add: getOriginHeaders_def set_empty)

lemma goh_str:
  "s \<noteq> ''*'' \<Longrightarrow>
   getOriginHeaders ro (OStr s) =
     [(''Access-Control-Allow-Origin'', s), (''Vary'', ''Origin'')]"
  by (simp add: getOriginHeaders_def set_empty headers_append_def)

lemma goh_other:
  "(\<And>s. v \<noteq> OStr s) \<Longrightarrow>
   getOriginHeaders ro v =
     (case ro of
        Some r \<Rightarrow>
          if isOriginAllowed r v \<and> r \<noteq> []
          then [(''Access-Control-Allow-Origin'', r), (''Vary'', ''Origin'')]
          else [(''Vary'', ''Origin'')]
      | None \<Rightarrow> [(''Vary'', ''Origin'')])"
  by (cases v) (auto simp: getOriginHeaders_def set_empty headers_append_def split: option.splits)

lemmas name_simps = headers_values_def same_name_def toLowerCase_def

lemma forEach_empty: "headers_forEach [] f h = h"
  by (simp add: headers_forEach_def headers_entries_def)

lemma forEach_allow_origin:
  "headers_forEach [(''Access-Control-Allow-Origin'', x)] mergeHeaders h =
     headers_set h ''access-control-allow-origin'' x"
  by (simp add: headers_forEach_def headers_entries_def mergeHeaders_def name_simps)

lemma forEach_allow_origin_vary:
  "headers_forEach [(''Access-Control-Allow-Origin'', x), (''Vary'', y)] mergeHeaders h =
     headers_append (headers_set h ''access-control-allow-origin'' x) ''vary'' y"
  by (simp add: headers_forEach_def headers_entries_def mergeHeaders_def name_simps)

lemma forEach_vary:
  "headers_forEach [(''Vary'', y)] mergeHeaders h = headers_append h ''vary'' y"
  by (simp add: headers_forEach_def headers_entries_def mergeHeaders_def name_simps)

lemma forEach_allow_headers:
  "headers_forEach [(''Access-Control-Allow-Headers'', x)] mergeHeaders h =
     headers_set h ''access-control-allow-headers'' x"
  by (simp add: headers_forEach_def headers_entries_def mergeHeaders_def name_simps)

lemma forEach_vary_allow_headers:
  "headers_forEach [(''Vary'', y), (''Access-Control-Allow-Headers'', x)] mergeHeaders h =
     headers_append (headers_set h ''access-control-allow-headers'' x) ''vary'' y"
  by (simp add: headers_forEach_def headers_entries_def mergeHeaders_def name_simps)

lemma gah_none:
  "getAllowedHeaders req None =
     (case headers_get (req_headers req) ''Access-Control-Request-Headers'' of
        Some s \<Rightarrow>
          if s \<noteq> []
          then [(''Vary'', ''Access-Control-Request-Headers''),
                (''Access-Control-Allow-Headers'', s)]
          else [(''Vary'', ''Access-Control-Request-Headers'')]
      | None \<Rightarrow> [(''Vary'', ''Access-Control-Request-Headers'')])"
  by (simp add: getAllowedHeaders_def headers_append_def headers_set_def headers_has_def
        name_simps split: option.splits)

lemma gah_str:
  "getAllowedHeaders req (Some (Str s)) =
     (if s = [] then [] else [(''Access-Control-Allow-Headers'', s)])"
  by (simp add: getAllowedHeaders_def set_empty)

lemma gah_arr:
  "getAllowedHeaders req (Some (Arr xs)) =
     (if join '','' xs = [] then [] else [(''Access-Control-Allow-Headers'', join '','' xs)])"
  by (simp add: getAllowedHeaders_def set_empty)

section \<open>The paths of \<open>cors\<close>\<close>

lemma ohfr_Some:
  "originHeadersFromReq req x = Fulfilled (Some oh) \<Longrightarrow>
   \<exists>v. origin_value req x = Fulfilled v \<and> truthy v \<and>
       oh = getOriginHeaders (request_origin req) v"
  by (auto simp: originHeadersFromReq_def split: promise.splits if_splits)

lemma ohfr_None:
  "origin_value req x = Fulfilled v \<Longrightarrow> \<not> truthy v \<Longrightarrow>
   originHeadersFromReq req x = Fulfilled None"
  by (simp add: originHeadersFromReq_def)

lemma ohfr_truthy:
  "origin_value req x = Fulfilled v \<Longrightarrow> truthy v \<Longrightarrow>
   originHeadersFromReq req x = Fulfilled (Some (getOriginHeaders (request_origin req) v))"
  by (simp add: originHeadersFromReq_def)

text \<open>The merge of the origin headers into a collection, as a chain of \<open>set\<close> and \<open>append\<close>.\<close>

lemma merged_origin:
  "headers_forEach (getOriginHeaders ro v) mergeHeaders h =
    (case v of
       OStr s \<Rightarrow>
         if s = ''*'' then headers_set h ''access-control-allow-origin'' ''*''
         else headers_append (headers_set h ''access-control-allow-origin'' s)
                ''vary'' ''Origin''
     | _ \<Rightarrow>
         (case ro of
            Some r \<Rightarrow>
              if isOriginAllowed r v \<and> r \<noteq> []
              then headers_append (headers_set h ''access-control-allow-origin'' r)
                     ''vary'' ''Origin''
              else headers_append h ''vary'' ''Origin''
          | None \<Rightarrow> headers_append h ''vary'' ''Origin''))"
proof (cases "\<exists>s. v = OStr s")
  case True
  then obtain s where "v = OStr s" by blast
  then show ?thesis
    by (cases "s = ''*''")
       (simp_all add: goh_star goh_str forEach_allow_origin forEach_allow_origin_vary)
next
  case False
  then have "\<And>s. v \<noteq> OStr s" by blast
  from goh_other[OF this] False show ?thesis
    by (cases v; cases ro) (simp_all add: forEach_allow_origin_vary forEach_vary)
qed

lemma merged_allowed:
  "headers_forEach (getAllowedHeaders req a) mergeHeaders h =
    (case a of
       None \<Rightarrow>
         (case headers_get (req_headers req) ''Access-Control-Request-Headers'' of
            Some s \<Rightarrow>
              if s \<noteq> []
              then headers_append (headers_set h ''access-control-allow-headers'' s)
                     ''vary'' ''Access-Control-Request-Headers''
              else headers_append h ''vary'' ''Access-Control-Request-Headers''
          | None \<Rightarrow> headers_append h ''vary'' ''Access-Control-Request-Headers'')
     | Some (Str s) \<Rightarrow> if s = [] then h else headers_set h ''access-control-allow-headers'' s
     | Some (Arr xs) \<Rightarrow>
         if join '','' xs = [] then h
         else headers_set h ''access-control-allow-headers'' (join '','' xs))"
  by (simp add: gah_none gah_str gah_arr forEach_empty forEach_vary forEach_allow_headers
        forEach_vary_allow_headers split: option.splits string_or_array.splits)

lemma cors_disabled:
  "originHeadersFromReq req (origin_arg (opts_of w options)) = Fulfilled None \<Longrightarrow>
   cors w req res options = Fulfilled (w, res)"
  by (simp add: cors_def Let_def)

lemma cors_normal:
  "originHeadersFromReq req (origin_arg (opts_of w options)) = Fulfilled (Some oh) \<Longrightarrow>
   req_method req \<noteq> ''OPTIONS'' \<Longrightarrow>
   cors w req res options =
     Fulfilled
       (write_headers w res
          (common_headers (opts_of w options) oh (res_headers (responses w ! res))), res)"
  by (simp add: cors_def Let_def)

lemma cors_continue:
  "originHeadersFromReq req (origin_arg (opts_of w options)) = Fulfilled (Some oh) \<Longrightarrow>
   req_method req = ''OPTIONS'' \<Longrightarrow>
   read (preflightContinue (opts_of w options)) = Some True \<Longrightarrow>
   cors w req res options =
     Fulfilled
       (write_headers w res
          (preflight_headers (opts_of w options) req
             (common_headers (opts_of w options) oh (res_headers (responses w ! res)))), res)"
  by (simp add: cors_def Let_def)

lemma cors_preflight:
  "originHeadersFromReq req (origin_arg (opts_of w options)) = Fulfilled (Some oh) \<Longrightarrow>
   req_method req = ''OPTIONS'' \<Longrightarrow>
   read (preflightContinue (opts_of w options)) \<noteq> Some True \<Longrightarrow>
   cors w req res options =
     (case new_Response (read (optionsSuccessStatus (opts_of w options)))
             (headers_set
                (preflight_headers (opts_of w options) req
                   (common_headers (opts_of w options) oh (res_headers (responses w ! res))))
                ''Content-Length'' ''0'') of
        Inl e \<Rightarrow>
          Rejected
            (write_headers w res
               (headers_set
                  (preflight_headers (opts_of w options) req
                     (common_headers (opts_of w options) oh
                        (res_headers (responses w ! res))))
                  ''Content-Length'' ''0''), e)
      | Inr r \<Rightarrow>
          Fulfilled
            (alloc
               (write_headers w res
                  (headers_set
                     (preflight_headers (opts_of w options) req
                        (common_headers (opts_of w options) oh
                           (res_headers (responses w ! res))))
                     ''Content-Length'' ''0'')) r))"
  by (simp add: cors_def Let_def)

text \<open>
  \<open>cors\<close> is fulfilled whenever the origin resolves, unless the \<open>Response\<close> constructor
  refuses the status.
\<close>

lemma cors_fulfilled:
  "originHeadersFromReq req (origin_arg (opts_of w options)) = Fulfilled x \<Longrightarrow>
   req_method req \<noteq> ''OPTIONS''
   \<or> read (preflightContinue (opts_of w options)) = Some True
   \<or> (200 \<le> init_status (read (optionsSuccessStatus (opts_of w options)))
      \<and> init_status (read (optionsSuccessStatus (opts_of w options))) \<le> 599) \<Longrightarrow>
   \<exists>w' r. cors w req res options = Fulfilled (w', r)"
  by (cases x) (auto simp: cors_def Let_def alloc_def new_Response_def)

lemma cors_configs:
  "cors w req res options = Fulfilled (w', r) \<Longrightarrow> configs w' = configs w"
  by (auto simp: cors_def Let_def alloc_def write_headers_def
        split: promise.splits option.splits if_splits sum.splits)

lemma cors_configs_rejected:
  "cors w req res options = Rejected (w', e) \<Longrightarrow> configs w' = configs w"
  by (auto simp: cors_def Let_def alloc_def write_headers_def
        split: promise.splits option.splits if_splits sum.splits)

lemma default_origin_headers:
  "origin opts = origin defaultOptions \<Longrightarrow>
   originHeadersFromReq req (origin_arg opts) =
     Fulfilled (Some [(''Access-Control-Allow-Origin'', ''*'')])"
  by (simp add: originHeadersFromReq_def origin_value_def origin_arg_def defaultOptions_def
        goh_star)

section \<open>The values the header blocks leave\<close>

lemma lower_names:
  "toLowerCase ''Access-Control-Allow-Origin'' = ''access-control-allow-origin''"
  "toLowerCase ''Access-Control-Allow-Credentials'' = ''access-control-allow-credentials''"
  "toLowerCase ''Access-Control-Expose-Headers'' = ''access-control-expose-headers''"
  "toLowerCase ''Access-Control-Allow-Methods'' = ''access-control-allow-methods''"
  "toLowerCase ''Access-Control-Allow-Headers'' = ''access-control-allow-headers''"
  "toLowerCase ''Access-Control-Max-Age'' = ''access-control-max-age''"
  "toLowerCase ''Content-Length'' = ''content-length''"
  "toLowerCase ''Vary'' = ''vary''"
  "toLowerCase ''access-control-allow-origin'' = ''access-control-allow-origin''"
  "toLowerCase ''access-control-allow-headers'' = ''access-control-allow-headers''"
  "toLowerCase ''vary'' = ''vary''"
  by (simp_all add: toLowerCase_def)

lemma merged_origin_values:
  "headers_values (headers_forEach (getOriginHeaders ro v) mergeHeaders h) n =
     (if toLowerCase n = ''vary''
      then headers_values h n @ (if v = OStr ''*'' then [] else [''Origin''])
      else if toLowerCase n = ''access-control-allow-origin''
      then (case v of
              OStr s \<Rightarrow> [s]
            | _ \<Rightarrow>
                (case ro of
                   Some r \<Rightarrow> if isOriginAllowed r v \<and> r \<noteq> [] then [r] else headers_values h n
                 | None \<Rightarrow> headers_values h n))
      else headers_values h n)"
  by (cases v; cases ro)
     (auto simp: merged_origin values_set values_append same_name_def lower_names)

lemma merged_allowed_values:
  "headers_values (headers_forEach (getAllowedHeaders req a) mergeHeaders h) n =
     (if toLowerCase n = ''vary''
      then headers_values h n @ (if a = None then [''Access-Control-Request-Headers''] else [])
      else if toLowerCase n = ''access-control-allow-headers''
      then (case a of
              None \<Rightarrow>
                (case headers_get (req_headers req) ''Access-Control-Request-Headers'' of
                   Some s \<Rightarrow> if s \<noteq> [] then [s] else headers_values h n
                 | None \<Rightarrow> headers_values h n)
            | Some (Str s) \<Rightarrow> if s = [] then headers_values h n else [s]
            | Some (Arr xs) \<Rightarrow> if join '','' xs = [] then headers_values h n else [join '','' xs])
      else headers_values h n)"
  by (cases a; (cases "the a")?;
      cases "headers_get (req_headers req) ''Access-Control-Request-Headers''")
     (auto simp: merged_allowed values_set values_append same_name_def lower_names)

lemma common_values:
  "headers_values (common_headers opts oh h) n =
     (if toLowerCase n = ''access-control-expose-headers''
         \<and> (case read (exposedHeaders opts) of
               Some (Arr xs) \<Rightarrow> join '','' xs \<noteq> []
             | Some (Str s) \<Rightarrow> s \<noteq> []
             | None \<Rightarrow> False)
      then (case read (exposedHeaders opts) of
              Some (Arr xs) \<Rightarrow> [join '','' xs]
            | Some (Str s) \<Rightarrow> [s]
            | None \<Rightarrow> [])
      else if toLowerCase n = ''access-control-allow-credentials''
              \<and> read (credentials opts) = Some True
      then [''true'']
      else headers_values (headers_forEach oh mergeHeaders h) n)"
  by (cases "read (exposedHeaders opts)"; (cases "the (read (exposedHeaders opts))")?)
     (auto simp: common_headers_def Let_def values_set same_name_def lower_names)

lemma preflight_values:
  "headers_values (preflight_headers opts req h) n =
     (if toLowerCase n = ''access-control-max-age'' \<and> read (maxAge opts) \<noteq> None
      then [String_of_number (the (read (maxAge opts)))]
      else headers_values
             (headers_forEach (getAllowedHeaders req (read (allowedHeaders opts))) mergeHeaders
                (case read (methods opts) of
                   Some (Arr xs) \<Rightarrow>
                     headers_set h ''Access-Control-Allow-Methods'' (join '','' xs)
                 | Some (Str s) \<Rightarrow>
                     if s \<noteq> [] then headers_set h ''Access-Control-Allow-Methods'' s else h
                 | None \<Rightarrow> h)) n)"
  by (cases "read (maxAge opts)")
     (auto simp: preflight_headers_def Let_def values_set same_name_def lower_names)

lemma methods_values:
  "headers_values
     (case m of
        Some (Arr xs) \<Rightarrow> headers_set h ''Access-Control-Allow-Methods'' (join '','' xs)
      | Some (Str s) \<Rightarrow>
          if s \<noteq> [] then headers_set h ''Access-Control-Allow-Methods'' s else h
      | None \<Rightarrow> h) n =
   (if toLowerCase n = ''access-control-allow-methods''
    then (case m of
            Some (Arr xs) \<Rightarrow> [join '','' xs]
          | Some (Str s) \<Rightarrow> if s \<noteq> [] then [s] else headers_values h n
          | None \<Rightarrow> headers_values h n)
    else headers_values h n)"
  by (cases m; (cases "the m")?) (auto simp: values_set same_name_def lower_names)

lemma write_headers_simps:
  "configs (write_headers w res h) = configs w"
  "length (responses (write_headers w res h)) = length (responses w)"
  "p \<noteq> res \<Longrightarrow> responses (write_headers w res h) ! p = responses w ! p"
  "res < length (responses w) \<Longrightarrow> res_headers (responses (write_headers w res h) ! res) = h"
  by (simp_all add: write_headers_def)

lemma write_headers_frame:
  "res_status (responses (write_headers w res h) ! res) = res_status (responses w ! res)"
  "res_body (responses (write_headers w res h) ! res) = res_body (responses w ! res)"
proof -
  show "res_status (responses (write_headers w res h) ! res) = res_status (responses w ! res)"
    by (cases "res < length (responses w)") (simp_all add: write_headers_def list_update_beyond)
  show "res_body (responses (write_headers w res h) ! res) = res_body (responses w ! res)"
    by (cases "res < length (responses w)") (simp_all add: write_headers_def list_update_beyond)
qed

lemma write_headers_nth:
  "res_headers (responses (write_headers w res h) ! res) =
     (if res < length (responses w) then h else res_headers (responses w ! res))"
  by (simp add: write_headers_def list_update_beyond)

lemma values_set_content_length:
  "toLowerCase n \<noteq> ''content-length'' \<Longrightarrow>
   headers_values (headers_set h ''Content-Length'' v) n = headers_values h n"
  by (auto simp: values_set same_name_def lower_names)

text \<open>The headers of the response \<open>cors\<close> resolves to, on the three paths that mutate.\<close>

lemma cors_final:
  assumes "originHeadersFromReq req (origin_arg (opts_of w options)) = Fulfilled (Some oh)"
    and "res < length (responses w)"
    and "cors w req res options = Fulfilled (w', r)"
  shows "res_headers (responses w' ! r) = res_headers (responses w' ! res)"
    and "toLowerCase n \<noteq> ''content-length'' \<Longrightarrow>
         headers_values (res_headers (responses w' ! res)) n =
           headers_values
             (if req_method req = ''OPTIONS''
              then preflight_headers (opts_of w options) req
                     (common_headers (opts_of w options) oh (res_headers (responses w ! res)))
              else common_headers (opts_of w options) oh (res_headers (responses w ! res))) n"
proof -
  consider (normal) "req_method req \<noteq> ''OPTIONS''"
    | (continue) "req_method req = ''OPTIONS''"
        "read (preflightContinue (opts_of w options)) = Some True"
    | (fresh) "req_method req = ''OPTIONS''"
        "read (preflightContinue (opts_of w options)) \<noteq> Some True"
    by blast
  then have "res_headers (responses w' ! r) = res_headers (responses w' ! res)
     \<and> (toLowerCase n \<noteq> ''content-length'' \<longrightarrow>
         headers_values (res_headers (responses w' ! res)) n =
           headers_values
             (if req_method req = ''OPTIONS''
              then preflight_headers (opts_of w options) req
                     (common_headers (opts_of w options) oh (res_headers (responses w ! res)))
              else common_headers (opts_of w options) oh (res_headers (responses w ! res))) n)"
  proof cases
    case normal
    with assms cors_normal[OF assms(1) normal, of res] show ?thesis
      by (auto simp: write_headers_nth)
  next
    case continue
    with assms cors_continue[OF assms(1) continue, of res] show ?thesis
      by (auto simp: write_headers_nth)
  next
    case fresh
    with assms cors_preflight[OF assms(1) fresh, of res] show ?thesis
      by (auto simp: alloc_def write_headers_def nth_append new_Response_def
            values_set_content_length split: sum.splits if_splits)
  qed
  then show "res_headers (responses w' ! r) = res_headers (responses w' ! res)"
    and "toLowerCase n \<noteq> ''content-length'' \<Longrightarrow>
         headers_values (res_headers (responses w' ! res)) n =
           headers_values
             (if req_method req = ''OPTIONS''
              then preflight_headers (opts_of w options) req
                     (common_headers (opts_of w options) oh (res_headers (responses w ! res)))
              else common_headers (opts_of w options) oh (res_headers (responses w ! res))) n"
    by simp_all
qed

lemma allowed_headers_final:
  assumes "req_method req = ''OPTIONS''"
    and "originHeadersFromReq req (origin_arg (opts_of w options)) = Fulfilled (Some oh)"
    and "res < length (responses w)"
    and "cors w req res options = Fulfilled (w', r)"
  shows "headers_values (res_headers (responses w' ! r)) ''Access-Control-Allow-Headers'' =
     (case read (allowedHeaders (opts_of w options)) of
        None \<Rightarrow>
          (case headers_get (req_headers req) ''Access-Control-Request-Headers'' of
             Some s \<Rightarrow>
               if s \<noteq> [] then [s]
               else headers_values (res_headers (responses w ! res))
                      ''Access-Control-Allow-Headers''
           | None \<Rightarrow>
               headers_values (res_headers (responses w ! res)) ''Access-Control-Allow-Headers'')
      | Some (Str s) \<Rightarrow>
          if s = []
          then headers_values (res_headers (responses w ! res)) ''Access-Control-Allow-Headers''
          else [s]
      | Some (Arr xs) \<Rightarrow>
          if join '','' xs = []
          then headers_values (res_headers (responses w ! res)) ''Access-Control-Allow-Headers''
          else [join '','' xs])"
proof -
  obtain v where oh: "oh = getOriginHeaders (request_origin req) v"
    using ohfr_Some[OF assms(2)] by blast
  have "headers_values (res_headers (responses w' ! r)) ''Access-Control-Allow-Headers'' =
      headers_values
        (preflight_headers (opts_of w options) req
           (common_headers (opts_of w options) oh (res_headers (responses w ! res))))
        ''Access-Control-Allow-Headers''"
    using cors_final(1)[OF assms(2,3,4)]
      cors_final(2)[OF assms(2,3,4), of "''Access-Control-Allow-Headers''"] assms(1)
    by (simp add: lower_names)
  then show ?thesis
    by (simp add: preflight_values merged_allowed_values methods_values common_values
          merged_origin_values oh lower_names values_set same_name_def
          split: option.splits string_or_array.splits)
qed

section \<open>The examples, evaluated\<close>

lemma example_opts:
  "opts_of example_state None = defaultOptions"
  "opts_of example_state (Some 2) = defaultOptions\<lparr>preflightContinue := Present (Some True)\<rparr>"
  "opts_of example_state (Some 5) = defaultOptions\<lparr>optionsSuccessStatus := Present None\<rparr>"
  "opts_of example_state (Some 6) =
     defaultOptions\<lparr>optionsSuccessStatus := Present (Some (Integer safe_99))\<rparr>"
  by (simp_all add: opts_of_def spread_def example_state_def empty_options_def defaultOptions_def)

lemma example_preflight_origin:
  "request_origin example_preflight = Some ''https://vercel.com''"
  "headers_get (req_headers example_preflight) ''Access-Control-Request-Headers'' =
     Some ''x-header-1, x-header-2''"
  by (simp_all add: request_origin_def example_preflight_def headers_get_def headers_has_def
        name_simps)




lemma example_opts_max_age:
  "opts_of example_state (Some 1) = defaultOptions\<lparr>maxAge := Present (Some (Integer safe_0))\<rparr>"
  by (simp add: opts_of_def spread_def example_state_def empty_options_def defaultOptions_def)


lemma example_status_max_age:
  "200 \<le> init_status (read (optionsSuccessStatus (opts_of example_state (Some 1))))
   \<and> init_status (read (optionsSuccessStatus (opts_of example_state (Some 1)))) \<le> 599"
  unfolding example_opts_max_age by (simp add: defaultOptions_def init_status_default)

lemma example_get_method: "req_method example_get \<noteq> ''OPTIONS''"
  by (simp add: example_get_def)

lemma example_response_values:
  "headers_get (res_headers example_response) ''Content-Type'' = Some ''application/json''"
  "headers_get (res_headers example_response) ''Content-Length'' = None"
  "headers_get (res_headers example_response) ''Vary'' = Some ''Foo''"
  "headers_values (res_headers example_response) ''Vary'' = [''Foo'']"
  "headers_values (res_headers example_response) ''Content-Type'' = [''application/json'']"
  by (simp_all add: example_response_def headers_get_def headers_has_def name_simps)

lemma example_opts_list:
  "opts_of example_state (Some 4) =
     defaultOptions\<lparr>origin := Present (Some (Static (OArray [OStr ''*''])))\<rparr>"
  "opts_of example_state (Some 3) =
     defaultOptions\<lparr>origin := Present (Some (Static (OStr ''https://vercel.com'')))\<rparr>"
  by (simp_all add: opts_of_def spread_def example_state_def empty_options_def defaultOptions_def)

lemma example_get_origin: "request_origin example_get = Some ''https://vercel.com''"
  by (simp add: request_origin_def example_get_def headers_get_def headers_has_def name_simps)

section \<open>The claims\<close>

text \<open>
  C5. For every request origin and every allowed value, \<open>isOriginAllowed\<close> returns: for a
  list, true iff some element matches recursively; for a string, true iff it equals the
  request origin exactly (case-sensitive, no normalisation); for a regular expression,
  what the pattern's test gives on the request origin; for a boolean, its truth value.
\<close>

theorem isOriginAllowed_cases:
  "isOriginAllowed ro (OArray xs) = (\<exists>x \<in> set xs. isOriginAllowed ro x)
   \<and> isOriginAllowed ro (OStr s) = (ro = s)
   \<and> isOriginAllowed ro (ORegExp r) = r ro
   \<and> isOriginAllowed ro (OBool b) = b"
  by (simp add: list_ex_iff)

theorem isOriginAllowed_cases_witness:
  "isOriginAllowed ''https://vercel.com''
     (OArray [ORegExp (\<lambda>s. s = ''https://foo.com''), OStr ''https://vercel.com''])
   \<and> \<not> isOriginAllowed ''https://Vercel.com'' (OStr ''https://vercel.com'')
   \<and> \<not> isOriginAllowed ''https://vercel.com''
         (OArray [OBool False, OStr ''https://vercel.com/''])
   \<and> isOriginAllowed ''https://vercel.com'' (OArray [OBool False, OBool True])"
  using isOriginAllowed_cases
    [of "''https://vercel.com''" "[OBool False, OBool True]" "''x''" "\<lambda>s. True" True]
  by simp

text \<open>
  C3. For every request, response and configuration, if the resolved origin value (after
  awaiting an origin function, if any) is falsy, that is \<open>false\<close>, the empty string or
  absent, then \<open>cors\<close> resolves to the input response and leaves the state as it was: the
  headers, the status and the body of the response are unmodified, whatever the \<open>Origin\<close>
  header of the request.
\<close>

theorem cors_falsy_origin_unmodified:
  assumes "origin_value req (origin_arg (opts_of w options)) = Fulfilled (OBool False)
           \<or> origin_value req (origin_arg (opts_of w options)) = Fulfilled (OStr [])
           \<or> read (origin (opts_of w options)) = None"
  shows "cors w req res options = Fulfilled (w, res)"
proof -
  from assms
  have "\<exists>v. origin_value req (origin_arg (opts_of w options)) = Fulfilled v \<and> \<not> truthy v"
    by (auto simp: origin_arg_def origin_value_def)
  then show ?thesis
    by (auto intro: cors_disabled ohfr_None)
qed

theorem cors_falsy_origin_unmodified_witness:
  "origin_value example_get (origin_arg (opts_of example_state (Some 0))) =
     Fulfilled (OBool False)
   \<and> headers_get (req_headers example_get) ''Origin'' = Some ''https://vercel.com''
   \<and> cors example_state example_get 0 (Some 0) = Fulfilled (example_state, 0)"
  using cors_falsy_origin_unmodified [of example_get example_state "Some 0" 0]
  by (simp add: origin_value_def origin_arg_def opts_of_def spread_def defaultOptions_def
        example_state_def empty_options_def example_get_def headers_get_def headers_has_def
        name_simps)




text \<open>
  C8. For every \<open>OPTIONS\<close> request for which origin resolution produced headers: if
  \<open>maxAge\<close> is a number, zero included, then \<open>Access-Control-Max-Age\<close> is set to
  \<open>String(maxAge)\<close>, so \<open>maxAge: 0\<close> gives \<open>0\<close>; if \<open>maxAge\<close> is absent the header is not set,
  and what the response held under that name stays. The test is on the presence of a
  number, not on its truthiness. For an integer between \<open>-2^53\<close> and \<open>2^53\<close> the string is
  its decimal digits, after a minus sign when it is negative; for every other number it
  is what the platform's \<open>String\<close> returns.
\<close>

theorem max_age_header:
  assumes "req_method req = ''OPTIONS''"
    and "originHeadersFromReq req (origin_arg (opts_of w options)) = Fulfilled (Some oh)"
    and "res < length (responses w)"
    and "cors w req res options = Fulfilled (w', r)"
  shows "(\<forall>n. read (maxAge (opts_of w options)) = Some n \<longrightarrow>
            headers_get (res_headers (responses w' ! r)) ''Access-Control-Max-Age'' =
              Some (String_of_number n)
            \<and> headers_get (res_headers (responses w' ! res)) ''Access-Control-Max-Age'' =
              Some (String_of_number n))
       \<and> (\<forall>i. 0 \<le> Rep_safe_integer i \<longrightarrow>
            decimal_value (String_of_number (Integer i)) = nat (Rep_safe_integer i)
            \<and> set (String_of_number (Integer i)) \<subseteq> set ''0123456789'')
       \<and> (\<forall>i. Rep_safe_integer i < 0 \<longrightarrow>
            (\<exists>ds. String_of_number (Integer i) = CHR ''-'' # ds
               \<and> decimal_value ds = nat (- Rep_safe_integer i)
               \<and> set ds \<subseteq> set ''0123456789''))
       \<and> (\<forall>s u. String_of_number (Other s u) = s)
       \<and> (read (maxAge (opts_of w options)) = None \<longrightarrow>
            headers_values (res_headers (responses w' ! r)) ''Access-Control-Max-Age'' =
              headers_values (res_headers (responses w ! res)) ''Access-Control-Max-Age'')
       \<and> String_of_number (Integer safe_0) = ''0''"
proof -
  obtain v where oh: "oh = getOriginHeaders (request_origin req) v"
    using ohfr_Some[OF assms(2)] by blast
  have same: "res_headers (responses w' ! r) = res_headers (responses w' ! res)"
    by (rule cors_final(1)[OF assms(2,3,4)])
  have vals: "headers_values (res_headers (responses w' ! res)) ''Access-Control-Max-Age'' =
      headers_values
        (preflight_headers (opts_of w options) req
           (common_headers (opts_of w options) oh (res_headers (responses w ! res))))
        ''Access-Control-Max-Age''"
    using cors_final(2)[OF assms(2,3,4), of "''Access-Control-Max-Age''"] assms(1)
    by (simp add: lower_names)
  have some: "read (maxAge (opts_of w options)) = Some n \<Longrightarrow>
      headers_values (res_headers (responses w' ! res)) ''Access-Control-Max-Age'' =
        [String_of_number n]" for n
    by (simp add: vals preflight_values lower_names)
  have none: "read (maxAge (opts_of w options)) = None \<Longrightarrow>
      headers_values (res_headers (responses w' ! res)) ''Access-Control-Max-Age'' =
        headers_values (res_headers (responses w ! res)) ''Access-Control-Max-Age''"
    by (simp add: vals preflight_values merged_allowed_values methods_values common_values
          merged_origin_values oh lower_names)
  have get: "read (maxAge (opts_of w options)) = Some n \<Longrightarrow>
      headers_get (res_headers (responses w' ! r)) ''Access-Control-Max-Age'' =
              Some (String_of_number n)
            \<and> headers_get (res_headers (responses w' ! res)) ''Access-Control-Max-Age'' =
              Some (String_of_number n)" for n
    using some[of n] same by (simp add: headers_get_def headers_has_def)
  have other: "String_of_number (Other s u) = s" for s u by simp
  from get none same String_of_number_decimal String_of_number_0 other
  show ?thesis by (intro conjI allI impI) simp_all
qed

theorem max_age_header_witness:
  "req_method example_preflight = ''OPTIONS''
   \<and> originHeadersFromReq example_preflight (origin_arg (opts_of example_state (Some 1))) =
       Fulfilled (Some [(''Access-Control-Allow-Origin'', ''*'')])
   \<and> (0::nat) < length (responses example_state)
   \<and> read (maxAge (opts_of example_state (Some 1))) = Some (Integer safe_0)
   \<and> Rep_safe_integer safe_0 = 0
   \<and> (\<exists>w' r. cors example_state example_preflight 0 (Some 1) = Fulfilled (w', r)
        \<and> headers_get (res_headers (responses w' ! r)) ''Access-Control-Max-Age'' = Some ''0'')"
proof -
  have m: "req_method example_preflight = ''OPTIONS''"
    by (simp add: example_preflight_def)
  have o: "originHeadersFromReq example_preflight (origin_arg (opts_of example_state (Some 1))) =
       Fulfilled (Some [(''Access-Control-Allow-Origin'', ''*'')])"
    unfolding example_opts_max_age by (simp add: default_origin_headers)
  have l: "(0::nat) < length (responses example_state)"
    by (simp add: example_state_def)
  have a: "read (maxAge (opts_of example_state (Some 1))) = Some (Integer safe_0)"
    unfolding example_opts_max_age by simp
  obtain w' r where c: "cors example_state example_preflight 0 (Some 1) = Fulfilled (w', r)"
    using cors_fulfilled[OF o disjI2[OF disjI2[OF example_status_max_age]]] by blast
  from max_age_header [OF m o l c] a
  have "headers_get (res_headers (responses w' ! r)) ''Access-Control-Max-Age'' = Some ''0''"
    by simp
  with m o l a c safe_0.rep_eq show ?thesis by blast
qed

text \<open>
  C10. For every request whose method is not \<open>OPTIONS\<close>, \<open>cors\<close> never sets
  \<open>Access-Control-Allow-Methods\<close>, \<open>Access-Control-Allow-Headers\<close>,
  \<open>Access-Control-Max-Age\<close> or \<open>Content-Length\<close>, never changes the status or the body of
  the response, and resolves to the input response object itself, constructing none. The
  only headers it can touch are \<open>Access-Control-Allow-Origin\<close>, \<open>Vary\<close>,
  \<open>Access-Control-Allow-Credentials\<close> and \<open>Access-Control-Expose-Headers\<close>.
\<close>

theorem normal_request_frame:
  assumes "req_method req \<noteq> ''OPTIONS''"
    and "cors w req res options = Fulfilled (w', r)"
  shows "r = res
       \<and> length (responses w') = length (responses w)
       \<and> configs w' = configs w
       \<and> (\<forall>p. p \<noteq> res \<longrightarrow> responses w' ! p = responses w ! p)
       \<and> res_status (responses w' ! res) = res_status (responses w ! res)
       \<and> res_body (responses w' ! res) = res_body (responses w ! res)
       \<and> (\<forall>n. toLowerCase n \<noteq> ''access-control-allow-origin''
              \<and> toLowerCase n \<noteq> ''vary''
              \<and> toLowerCase n \<noteq> ''access-control-allow-credentials''
              \<and> toLowerCase n \<noteq> ''access-control-expose-headers'' \<longrightarrow>
              headers_values (res_headers (responses w' ! res)) n =
                headers_values (res_headers (responses w ! res)) n)
       \<and> (\<forall>n \<in> {''Access-Control-Allow-Methods'', ''Access-Control-Allow-Headers'',
                  ''Access-Control-Max-Age'', ''Content-Length''}.
              headers_get (res_headers (responses w' ! res)) n =
                headers_get (res_headers (responses w ! res)) n)"
proof -
  have frame: "\<forall>n. toLowerCase n \<noteq> ''access-control-allow-origin''
              \<and> toLowerCase n \<noteq> ''vary''
              \<and> toLowerCase n \<noteq> ''access-control-allow-credentials''
              \<and> toLowerCase n \<noteq> ''access-control-expose-headers'' \<longrightarrow>
              headers_values (res_headers (responses w' ! res)) n =
                headers_values (res_headers (responses w ! res)) n"
    and rest: "r = res \<and> length (responses w') = length (responses w) \<and> configs w' = configs w
       \<and> (\<forall>p. p \<noteq> res \<longrightarrow> responses w' ! p = responses w ! p)
       \<and> res_status (responses w' ! res) = res_status (responses w ! res)
       \<and> res_body (responses w' ! res) = res_body (responses w ! res)"
  proof -
    obtain x where x: "originHeadersFromReq req (origin_arg (opts_of w options)) = Fulfilled x"
      using assms(2) by (auto simp: cors_def Let_def split: promise.splits)
    show "\<forall>n. toLowerCase n \<noteq> ''access-control-allow-origin''
              \<and> toLowerCase n \<noteq> ''vary''
              \<and> toLowerCase n \<noteq> ''access-control-allow-credentials''
              \<and> toLowerCase n \<noteq> ''access-control-expose-headers'' \<longrightarrow>
              headers_values (res_headers (responses w' ! res)) n =
                headers_values (res_headers (responses w ! res)) n"
    proof (cases x)
      case None
      with x assms(2) cors_disabled[of req w options res] show ?thesis by simp
    next
      case (Some oh)
      then obtain v where oh: "oh = getOriginHeaders (request_origin req) v"
        using ohfr_Some x by blast
      from Some x assms cors_normal[of req w options oh res]
      have w': "w' = write_headers w res
                  (common_headers (opts_of w options) oh (res_headers (responses w ! res)))"
        by auto
      show ?thesis
        by (auto simp: w' write_headers_nth common_values merged_origin_values oh)
    qed
    show "r = res \<and> length (responses w') = length (responses w) \<and> configs w' = configs w
       \<and> (\<forall>p. p \<noteq> res \<longrightarrow> responses w' ! p = responses w ! p)
       \<and> res_status (responses w' ! res) = res_status (responses w ! res)
       \<and> res_body (responses w' ! res) = res_body (responses w ! res)"
    proof (cases x)
      case None
      with x assms(2) cors_disabled[of req w options res] show ?thesis by simp
    next
      case (Some oh)
      from Some x assms cors_normal[of req w options oh res]
      have "w' = write_headers w res
                  (common_headers (opts_of w options) oh (res_headers (responses w ! res)))"
        and "r = res"
        by auto
      then show ?thesis
        by (simp add: write_headers_simps write_headers_frame)
    qed
  qed
  have four: "\<forall>n \<in> {''Access-Control-Allow-Methods'', ''Access-Control-Allow-Headers'',
                  ''Access-Control-Max-Age'', ''Content-Length''}.
              headers_get (res_headers (responses w' ! res)) n =
                headers_get (res_headers (responses w ! res)) n"
    using frame by (simp add: headers_get_def headers_has_def lower_names)
  from rest frame four show ?thesis by blast
qed

theorem normal_request_frame_witness:
  "req_method example_get \<noteq> ''OPTIONS''
   \<and> (\<exists>w'. cors example_state example_get 0 None = Fulfilled (w', 0)
        \<and> length (responses w') = 1
        \<and> res_status (responses w' ! 0) = 200
        \<and> res_body (responses w' ! 0) = Some ''{}''
        \<and> headers_values (res_headers (responses w' ! 0)) ''Content-Type'' =
            [''application/json'']
        \<and> headers_get (res_headers (responses w' ! 0)) ''Content-Length'' = None)"
proof -
  have o: "originHeadersFromReq example_get (origin_arg (opts_of example_state None)) =
       Fulfilled (Some [(''Access-Control-Allow-Origin'', ''*'')])"
    by (simp add: default_origin_headers example_opts)
  obtain w' r where c: "cors example_state example_get 0 None = Fulfilled (w', r)"
    using cors_fulfilled[OF o disjI1[OF example_get_method]] by blast
  have r: "responses example_state = [example_response]"
    by (simp add: example_state_def)
  have ct: "toLowerCase ''Content-Type'' = ''content-type''"
    by (simp add: toLowerCase_def)
  from normal_request_frame [OF example_get_method c]
  have "r = 0" and "length (responses w') = 1"
    and "res_status (responses w' ! 0) = 200"
    and "res_body (responses w' ! 0) = Some ''{}''"
    and "headers_values (res_headers (responses w' ! 0)) ''Content-Type'' =
            [''application/json'']"
    and "headers_get (res_headers (responses w' ! 0)) ''Content-Length'' = None"
    by (simp_all add: r ct example_response_values) (simp_all add: example_response_def)
  with c example_get_method show ?thesis by blast
qed

text \<open>
  C4. For every \<open>OPTIONS\<close> request the allowed headers fall in three cases. If
  \<open>allowedHeaders\<close> is omitted (undefined, not merely falsy), the value of the request's
  \<open>Access-Control-Request-Headers\<close> is reflected into \<open>Access-Control-Allow-Headers\<close>, when
  the request has one that is not empty, and \<open>Access-Control-Request-Headers\<close> is appended
  to \<open>Vary\<close>. If it is the empty string or the empty array, no header is computed and
  nothing is appended to \<open>Vary\<close>. If it is a non-empty array, its elements are joined with
  commas, without spaces, in their order and with their duplicates. The last conjunct is
  what \<open>cors\<close> leaves under \<open>Access-Control-Allow-Headers\<close> in the response it resolves to.
\<close>

theorem allowed_headers_cases:
  "getAllowedHeaders req None =
     (case headers_get (req_headers req) ''Access-Control-Request-Headers'' of
        Some s \<Rightarrow>
          if s \<noteq> []
          then [(''Vary'', ''Access-Control-Request-Headers''),
                (''Access-Control-Allow-Headers'', s)]
          else [(''Vary'', ''Access-Control-Request-Headers'')]
      | None \<Rightarrow> [(''Vary'', ''Access-Control-Request-Headers'')])
   \<and> getAllowedHeaders req (Some (Str [])) = []
   \<and> getAllowedHeaders req (Some (Arr [])) = []
   \<and> (xs \<noteq> [] \<longrightarrow>
        getAllowedHeaders req (Some (Arr xs)) =
          (if join '','' xs = [] then [] else [(''Access-Control-Allow-Headers'', join '','' xs)]))
   \<and> join '','' [x] = x
   \<and> join '','' (x # y # ys) = x @ '','' @ join '','' (y # ys)
   \<and> (req_method req = ''OPTIONS''
        \<and> originHeadersFromReq req (origin_arg (opts_of w options)) = Fulfilled (Some oh)
        \<and> res < length (responses w) \<and> cors w req res options = Fulfilled (w', r) \<longrightarrow>
        headers_values (res_headers (responses w' ! r)) ''Access-Control-Allow-Headers'' =
          (case read (allowedHeaders (opts_of w options)) of
             None \<Rightarrow>
               (case headers_get (req_headers req) ''Access-Control-Request-Headers'' of
                  Some s \<Rightarrow>
                    if s \<noteq> [] then [s]
                    else headers_values (res_headers (responses w ! res))
                           ''Access-Control-Allow-Headers''
                | None \<Rightarrow>
                    headers_values (res_headers (responses w ! res))
                      ''Access-Control-Allow-Headers'')
           | Some (Str s) \<Rightarrow>
               if s = []
               then headers_values (res_headers (responses w ! res))
                      ''Access-Control-Allow-Headers''
               else [s]
           | Some (Arr xs) \<Rightarrow>
               if join '','' xs = []
               then headers_values (res_headers (responses w ! res))
                      ''Access-Control-Allow-Headers''
               else [join '','' xs]))"
  using allowed_headers_final[of req w options oh res w' r]
  by (simp add: gah_none gah_str gah_arr)

theorem allowed_headers_cases_witness:
  "[''FIZZ'', ''buzz'', ''FIZZ''] \<noteq> []
   \<and> getAllowedHeaders example_preflight (Some (Arr [''FIZZ'', ''buzz'', ''FIZZ''])) =
       [(''Access-Control-Allow-Headers'', ''FIZZ,buzz,FIZZ'')]
   \<and> getAllowedHeaders example_preflight None =
       [(''Vary'', ''Access-Control-Request-Headers''),
        (''Access-Control-Allow-Headers'', ''x-header-1, x-header-2'')]
   \<and> getAllowedHeaders example_get None = [(''Vary'', ''Access-Control-Request-Headers'')]
   \<and> getAllowedHeaders example_preflight (Some (Str [])) = []
   \<and> getAllowedHeaders example_preflight (Some (Arr [])) = []"
  using allowed_headers_cases
      [of example_preflight "[''FIZZ'', ''buzz'', ''FIZZ'']" "''a''" "''b''" "[]"
          example_state None "[]" 0 example_state 0]
    allowed_headers_cases
      [of example_get "[''a'']" "''a''" "''b''" "[]" example_state None "[]" 0 example_state 0]
  by (simp add: example_preflight_origin)
     (simp add: example_get_def headers_get_def headers_has_def name_simps)

text \<open>
  C2. For every request and configuration, when the resolved origin is the wildcard \<open>*\<close>
  the computed origin headers are \<open>Access-Control-Allow-Origin: *\<close> alone, with no \<open>Vary\<close>
  entry. On every other path (a fixed string, a regular expression, a boolean, an array,
  each also as the result of an origin function) the computed headers hold exactly one
  \<open>Vary\<close> entry, \<open>Origin\<close>, also when the match fails and no
  \<open>Access-Control-Allow-Origin\<close> is set. The last conjunct is the effect on the response:
  when the resolved origin is truthy, one call appends \<open>Origin\<close> to the \<open>Vary\<close> values of
  the response exactly once, unless the origin is the wildcard.
\<close>

theorem origin_vary:
  "getOriginHeaders ro (OStr ''*'') = [(''Access-Control-Allow-Origin'', ''*'')]
   \<and> headers_values (getOriginHeaders ro (OStr ''*'')) ''Vary'' = []
   \<and> (v \<noteq> OStr ''*'' \<longrightarrow> headers_values (getOriginHeaders ro v) ''Vary'' = [''Origin''])
   \<and> ((\<forall>s. v \<noteq> OStr s) \<and> \<not> isOriginAllowed (case ro of None \<Rightarrow> [] | Some r \<Rightarrow> r) v \<longrightarrow>
        getOriginHeaders ro v = [(''Vary'', ''Origin'')])
   \<and> (origin_value req (origin_arg (opts_of w options)) = Fulfilled v \<and> truthy v
        \<and> res < length (responses w) \<and> cors w req res options = Fulfilled (w', r) \<longrightarrow>
        headers_values (res_headers (responses w' ! res)) ''Vary'' =
          headers_values (res_headers (responses w ! res)) ''Vary''
          @ (if v = OStr ''*'' then [] else [''Origin''])
          @ (if req_method req = ''OPTIONS'' \<and> read (allowedHeaders (opts_of w options)) = None
             then [''Access-Control-Request-Headers''] else []))"
proof -
  have a: "headers_values (getOriginHeaders ro (OStr ''*'')) ''Vary'' = []"
    by (simp add: goh_star name_simps)
  have b: "v \<noteq> OStr ''*'' \<Longrightarrow> headers_values (getOriginHeaders ro v) ''Vary'' = [''Origin'']"
  proof (cases "\<exists>s. v = OStr s")
    case True
    assume ne: "v \<noteq> OStr ''*''"
    from True obtain s where s: "v = OStr s" by blast
    with ne have "s \<noteq> ''*''" by simp
    from goh_str[OF this] s show ?thesis by (simp add: name_simps)
  next
    case False
    then have "\<And>s. v \<noteq> OStr s" by blast
    from goh_other[OF this] show ?thesis
      by (auto simp: name_simps split: option.splits)
  qed
  have c: "(\<forall>s. v \<noteq> OStr s) \<and> \<not> isOriginAllowed (case ro of None \<Rightarrow> [] | Some r \<Rightarrow> r) v \<Longrightarrow>
        getOriginHeaders ro v = [(''Vary'', ''Origin'')]"
  proof -
    assume h: "(\<forall>s. v \<noteq> OStr s) \<and> \<not> isOriginAllowed (case ro of None \<Rightarrow> [] | Some r \<Rightarrow> r) v"
    then have "\<And>s. v \<noteq> OStr s" by blast
    from goh_other[OF this] h show ?thesis
      by (auto split: option.splits)
  qed
  have d: "headers_values (res_headers (responses w' ! res)) ''Vary'' =
          headers_values (res_headers (responses w ! res)) ''Vary''
          @ (if v = OStr ''*'' then [] else [''Origin''])
          @ (if req_method req = ''OPTIONS'' \<and> read (allowedHeaders (opts_of w options)) = None
             then [''Access-Control-Request-Headers''] else [])"
    if h: "origin_value req (origin_arg (opts_of w options)) = Fulfilled v" "truthy v"
        "res < length (responses w)" "cors w req res options = Fulfilled (w', r)"
  proof -
    note o = ohfr_truthy[OF h(1,2)]
    from cors_final(2)[OF o h(3,4), of "''Vary''"]
    show ?thesis
      by (simp add: lower_names preflight_values merged_allowed_values methods_values
            common_values merged_origin_values)
  qed
  from a b c d goh_star show ?thesis by blast
qed

theorem origin_vary_witness:
  "OArray [OStr ''*''] \<noteq> OStr ''*''
   \<and> headers_values (getOriginHeaders (Some ''https://vercel.com'') (OArray [OStr ''*'']))
       ''Vary'' = [''Origin'']
   \<and> \<not> isOriginAllowed ''https://vercel.com'' (OArray [OStr ''*''])
   \<and> getOriginHeaders (Some ''https://vercel.com'') (OArray [OStr ''*'']) =
       [(''Vary'', ''Origin'')]
   \<and> origin_value example_get (origin_arg (opts_of example_state (Some 4))) =
       Fulfilled (OArray [OStr ''*''])
   \<and> truthy (OArray [OStr ''*''])
   \<and> (0::nat) < length (responses example_state)
   \<and> (\<exists>w' r. cors example_state example_get 0 (Some 4) = Fulfilled (w', r)
        \<and> headers_values (res_headers (responses w' ! 0)) ''Vary'' = [''Foo'', ''Origin''])"
proof -
  have v: "origin_value example_get (origin_arg (opts_of example_state (Some 4))) =
       Fulfilled (OArray [OStr ''*''])"
    unfolding example_opts_list by (simp add: origin_value_def origin_arg_def)
  have t: "truthy (OArray [OStr ''*''])" by simp
  have l: "(0::nat) < length (responses example_state)"
    by (simp add: example_state_def)
  have m: "req_method example_get \<noteq> ''OPTIONS''" by (rule example_get_method)
  have na: "\<not> isOriginAllowed ''https://vercel.com'' (OArray [OStr ''*''])" by simp
  obtain w' r where c: "cors example_state example_get 0 (Some 4) = Fulfilled (w', r)"
    using cors_fulfilled[OF ohfr_truthy[OF v t] disjI1[OF m]] by blast
  note T = origin_vary [of "Some ''https://vercel.com''" "OArray [OStr ''*'']" example_get
      example_state "Some 4" 0 w' r]
  have ne: "OArray [OStr ''*''] \<noteq> OStr ''*''" by simp
  have ns: "\<forall>s. OArray [OStr ''*''] \<noteq> OStr s" by simp
  have na': "\<not> isOriginAllowed (case Some ''https://vercel.com'' of None \<Rightarrow> [] | Some r \<Rightarrow> r)
                 (OArray [OStr ''*''])"
    by simp
  from T ne have a: "headers_values
      (getOriginHeaders (Some ''https://vercel.com'') (OArray [OStr ''*''])) ''Vary'' =
      [''Origin'']"
    by blast
  from T ns na' have b: "getOriginHeaders (Some ''https://vercel.com'') (OArray [OStr ''*'']) =
       [(''Vary'', ''Origin'')]"
    by blast
  from T v t l c m
  have d: "headers_values (res_headers (responses w' ! 0)) ''Vary'' = [''Foo'', ''Origin'']"
    by (simp add: example_state_def example_response_values)
  from ne a b na v t l c d show ?thesis by blast
qed

text \<open>
  C6. For every call of \<open>cors\<close>, the options object of the caller is never mutated: the
  options objects of the state are the same after the call, whether the promise is
  fulfilled or rejected (nothing but the headers of the response is ever written). The
  working copy \<open>opts\<close> is the caller's fields laid over the documented
  defaults: a field reads as the caller gave it when the key is present, and as the
  default otherwise.
\<close>

theorem options_never_mutated:
  "(cors w req res options = Fulfilled (w', r) \<longrightarrow> configs w' = configs w)
   \<and> (cors w req res options = Rejected (w', e) \<longrightarrow> configs w' = configs w)
   \<and> opts_of w None = defaultOptions
   \<and> read (origin (opts_of w (Some p))) =
       (case origin (configs w ! p) of
          Absent \<Rightarrow> Some (Static (OStr ''*'')) | Present v \<Rightarrow> v)
   \<and> read (methods (opts_of w (Some p))) =
       (case methods (configs w ! p) of
          Absent \<Rightarrow> Some (Str ''GET,HEAD,PUT,PATCH,POST,DELETE'') | Present v \<Rightarrow> v)
   \<and> read (allowedHeaders (opts_of w (Some p))) =
       (case allowedHeaders (configs w ! p) of Absent \<Rightarrow> None | Present v \<Rightarrow> v)
   \<and> read (exposedHeaders (opts_of w (Some p))) =
       (case exposedHeaders (configs w ! p) of Absent \<Rightarrow> None | Present v \<Rightarrow> v)
   \<and> read (credentials (opts_of w (Some p))) =
       (case credentials (configs w ! p) of Absent \<Rightarrow> None | Present v \<Rightarrow> v)
   \<and> read (maxAge (opts_of w (Some p))) =
       (case maxAge (configs w ! p) of Absent \<Rightarrow> None | Present v \<Rightarrow> v)
   \<and> read (preflightContinue (opts_of w (Some p))) =
       (case preflightContinue (configs w ! p) of Absent \<Rightarrow> Some False | Present v \<Rightarrow> v)
   \<and> read (optionsSuccessStatus (opts_of w (Some p))) =
       (case optionsSuccessStatus (configs w ! p) of Absent \<Rightarrow> Some (Integer safe_204) | Present v \<Rightarrow> v)"
  using cors_configs[of w req res options w' r] cors_configs_rejected[of w req res options w' e]
  by (simp add: opts_of_def spread_def defaultOptions_def split: property.splits)

theorem options_never_mutated_witness:
  "(\<exists>w' r. cors example_state example_preflight 0 (Some 1) = Fulfilled (w', r)
      \<and> configs w' = configs example_state)
   \<and> read (maxAge (opts_of example_state (Some 1))) = Some (Integer safe_0)
   \<and> read (optionsSuccessStatus (opts_of example_state (Some 1))) = Some (Integer safe_204)
   \<and> read (optionsSuccessStatus (opts_of example_state (Some 5))) = None
   \<and> read (maxAge (configs example_state ! 1)) = Some (Integer safe_0)
   \<and> optionsSuccessStatus (configs example_state ! 1) = Absent"
proof -
  have o: "originHeadersFromReq example_preflight (origin_arg (opts_of example_state (Some 1))) =
       Fulfilled (Some [(''Access-Control-Allow-Origin'', ''*'')])"
    unfolding example_opts_max_age by (simp add: default_origin_headers)
  obtain w' r where c: "cors example_state example_preflight 0 (Some 1) = Fulfilled (w', r)"
    using cors_fulfilled[OF o disjI2[OF disjI2[OF example_status_max_age]]] by blast
  have e: "configs example_state ! 1 = empty_options\<lparr>maxAge := Present (Some (Integer safe_0))\<rparr>"
    "configs example_state ! 5 = empty_options\<lparr>optionsSuccessStatus := Present None\<rparr>"
    by (simp_all add: example_state_def)
  from options_never_mutated [of example_state example_preflight 0 "Some 1" w' r undefined 1] c
  have a: "configs w' = configs example_state"
    and b: "read (maxAge (opts_of example_state (Some 1))) = Some (Integer safe_0)"
    and d: "read (optionsSuccessStatus (opts_of example_state (Some 1))) = Some (Integer safe_204)"
    by (simp_all add: e empty_options_def del: One_nat_def)
  from options_never_mutated [of example_state example_preflight 0 "Some 1" w' r undefined 5]
  have f: "read (optionsSuccessStatus (opts_of example_state (Some 5))) = None"
    by (simp add: e empty_options_def)
  have g: "read (maxAge (configs example_state ! 1)) = Some (Integer safe_0)"
    "optionsSuccessStatus (configs example_state ! 1) = Absent"
    by (simp_all add: e empty_options_def del: One_nat_def)
  from a b c d f g show ?thesis by blast
qed

text \<open>
  C7. When \<open>cors\<close> merges computed headers into the header collection of the response,
  the \<open>Vary\<close> header is appended: the value the response had is kept and extended after a
  comma and a space, so \<open>Foo\<close> and an appended \<open>Origin\<close> give \<open>Foo, Origin\<close>. Every other
  header is set, and the value that was there is overwritten. The keys \<open>forEach\<close> passes
  to \<open>mergeHeaders\<close> are in lower case, so the comparison with \<open>vary\<close> finds the \<open>Vary\<close>
  header whatever its case in the computed collection.
\<close>

theorem merge_policy:
  "headers_get (mergeHeaders h v ''vary'') ''Vary'' =
     Some (case headers_get h ''Vary'' of None \<Rightarrow> v | Some old \<Rightarrow> old @ '', '' @ v)
   \<and> (k \<noteq> ''vary'' \<longrightarrow>
        headers_values (mergeHeaders h v k) k = [v] \<and> headers_get (mergeHeaders h v k) k = Some v)
   \<and> ((k, v) \<in> set (headers_entries oh) \<longrightarrow>
        mergeHeaders h v k =
          (if same_name k ''Vary'' then headers_append h k v else headers_set h k v))
   \<and> (origin_value req (origin_arg (opts_of w options)) = Fulfilled (OStr s)
        \<and> s \<noteq> [] \<and> s \<noteq> ''*'' \<and> req_method req \<noteq> ''OPTIONS''
        \<and> res < length (responses w) \<and> cors w req res options = Fulfilled (w', r) \<longrightarrow>
        headers_get (res_headers (responses w' ! res)) ''Vary'' =
          Some (case headers_get (res_headers (responses w ! res)) ''Vary'' of
                  None \<Rightarrow> ''Origin''
                | Some old \<Rightarrow> old @ '', '' @ ''Origin'')
        \<and> headers_get (res_headers (responses w' ! res)) ''Access-Control-Allow-Origin'' =
            Some s)"
proof -
  have a: "headers_get (mergeHeaders h v ''vary'') ''Vary'' =
     Some (case headers_get h ''Vary'' of None \<Rightarrow> v | Some old \<Rightarrow> old @ '', '' @ v)"
    by (simp add: mergeHeaders_def get_append_same same_name_def lower_names)
  have b: "k \<noteq> ''vary'' \<Longrightarrow>
        headers_values (mergeHeaders h v k) k = [v] \<and> headers_get (mergeHeaders h v k) k = Some v"
    by (simp add: mergeHeaders_def headers_get_def headers_has_def values_set same_name_def)
  have c: "(k, v) \<in> set (headers_entries oh) \<Longrightarrow>
        mergeHeaders h v k =
          (if same_name k ''Vary'' then headers_append h k v else headers_set h k v)"
    using entries_lower[of k v oh]
    by (simp add: mergeHeaders_def same_name_def lower_names)
  have d: "headers_get (res_headers (responses w' ! res)) ''Vary'' =
          Some (case headers_get (res_headers (responses w ! res)) ''Vary'' of
                  None \<Rightarrow> ''Origin''
                | Some old \<Rightarrow> old @ '', '' @ ''Origin'')
        \<and> headers_get (res_headers (responses w' ! res)) ''Access-Control-Allow-Origin'' =
            Some s"
    if h: "origin_value req (origin_arg (opts_of w options)) = Fulfilled (OStr s)"
      "s \<noteq> []" "s \<noteq> ''*''" "req_method req \<noteq> ''OPTIONS''"
      "res < length (responses w)" "cors w req res options = Fulfilled (w', r)"
  proof -
    from h(2) have t: "truthy (OStr s)" by simp
    note o = ohfr_truthy[OF h(1) t]
    from cors_final(2)[OF o h(5,6), of "''Vary''"] h(3,4)
    have v: "headers_values (res_headers (responses w' ! res)) ''Vary'' =
        headers_values (res_headers (responses w ! res)) ''Vary'' @ [''Origin'']"
      by (simp add: lower_names common_values merged_origin_values)
    from cors_final(2)[OF o h(5,6), of "''Access-Control-Allow-Origin''"] h(3,4)
    have ao: "headers_values (res_headers (responses w' ! res)) ''Access-Control-Allow-Origin'' =
        [s]"
      by (simp add: lower_names common_values merged_origin_values)
    from v ao show ?thesis
      by (simp add: headers_get_def headers_has_def join_snoc)
  qed
  from a b c d show ?thesis by blast
qed

theorem merge_policy_witness:
  "headers_get (mergeHeaders [(''Vary'', ''Foo'')] ''Origin'' ''vary'') ''Vary'' =
     Some ''Foo, Origin''
   \<and> ''access-control-allow-origin'' \<noteq> ''vary''
   \<and> headers_get
        (mergeHeaders [(''Access-Control-Allow-Origin'', ''https://old.example'')]
           ''https://vercel.com'' ''access-control-allow-origin'')
        ''access-control-allow-origin'' = Some ''https://vercel.com''
   \<and> origin_value example_get (origin_arg (opts_of example_state (Some 3))) =
       Fulfilled (OStr ''https://vercel.com'')
   \<and> req_method example_get \<noteq> ''OPTIONS''
   \<and> (0::nat) < length (responses example_state)
   \<and> headers_get (res_headers (responses example_state ! 0)) ''Vary'' = Some ''Foo''
   \<and> (\<exists>w' r. cors example_state example_get 0 (Some 3) = Fulfilled (w', r)
        \<and> headers_get (res_headers (responses w' ! 0)) ''Vary'' = Some ''Foo, Origin''
        \<and> headers_get (res_headers (responses w' ! 0)) ''Access-Control-Allow-Origin'' =
            Some ''https://vercel.com'')"
proof -
  have v: "origin_value example_get (origin_arg (opts_of example_state (Some 3))) =
       Fulfilled (OStr ''https://vercel.com'')"
    unfolding example_opts_list by (simp add: origin_value_def origin_arg_def)
  have t: "truthy (OStr ''https://vercel.com'')" by simp
  have l: "(0::nat) < length (responses example_state)"
    by (simp add: example_state_def)
  have m: "req_method example_get \<noteq> ''OPTIONS''" by (rule example_get_method)
  have f: "headers_get (res_headers (responses example_state ! 0)) ''Vary'' = Some ''Foo''"
    by (simp add: example_state_def example_response_values)
  have g: "headers_get [(''Vary'', ''Foo'')] ''Vary'' = Some ''Foo''"
    by (simp add: headers_get_def headers_has_def name_simps)
  have ne: "''access-control-allow-origin'' \<noteq> ''vary''" by simp
  obtain w' r where c: "cors example_state example_get 0 (Some 3) = Fulfilled (w', r)"
    using cors_fulfilled[OF ohfr_truthy[OF v t] disjI1[OF m]] by blast
  note T = merge_policy [of "[(''Vary'', ''Foo'')]" "''Origin''" "''vary''" "[]" example_get
      example_state "Some 3" "''https://vercel.com''" 0 w' r]
  note U = merge_policy
      [of "[(''Access-Control-Allow-Origin'', ''https://old.example'')]" "''https://vercel.com''"
          "''access-control-allow-origin''" "[]" example_get example_state "Some 3"
          "''https://vercel.com''" 0 w' r]
  from T g have a: "headers_get (mergeHeaders [(''Vary'', ''Foo'')] ''Origin'' ''vary'') ''Vary'' =
     Some ''Foo, Origin''"
    by simp
  from U ne have b: "headers_get
        (mergeHeaders [(''Access-Control-Allow-Origin'', ''https://old.example'')]
           ''https://vercel.com'' ''access-control-allow-origin'')
        ''access-control-allow-origin'' = Some ''https://vercel.com''"
    by blast
  from T v m l c f
  have d: "headers_get (res_headers (responses w' ! 0)) ''Vary'' = Some ''Foo, Origin''
        \<and> headers_get (res_headers (responses w' ! 0)) ''Access-Control-Allow-Origin'' =
            Some ''https://vercel.com''"
    by simp
  from a b ne v m l f c d show ?thesis by blast
qed

text \<open>
  C9. The wildcard meaning of \<open>*\<close> holds only when \<open>*\<close> is the whole resolved origin. In a
  list, also one an origin function resolves to, \<open>*\<close> is compared with the request origin
  by string equality like any other string: it matches only a request whose \<open>Origin\<close>
  header is literally \<open>*\<close>, and does not allow all origins. The header
  \<open>Access-Control-Allow-Origin\<close> computed for a list is never the marker, only the request
  origin when it is allowed.
\<close>

theorem wildcard_in_list:
  "isOriginAllowed ro (OStr ''*'') = (ro = ''*'')
   \<and> (OStr ''*'' \<in> set xs \<and> (\<forall>x \<in> set xs. x \<noteq> OStr ''*'' \<longrightarrow> \<not> isOriginAllowed ro x) \<longrightarrow>
        isOriginAllowed ro (OArray xs) = (ro = ''*''))
   \<and> (ro \<noteq> ''*'' \<longrightarrow> getOriginHeaders (Some ro) (OArray [OStr ''*'']) = [(''Vary'', ''Origin'')])
   \<and> getOriginHeaders (Some ''*'') (OArray [OStr ''*'']) =
       [(''Access-Control-Allow-Origin'', ''*''), (''Vary'', ''Origin'')]
   \<and> headers_values (getOriginHeaders reqOrigin (OArray xs)) ''Access-Control-Allow-Origin'' =
       (case reqOrigin of
          Some r \<Rightarrow> if isOriginAllowed r (OArray xs) \<and> r \<noteq> [] then [r] else []
        | None \<Rightarrow> [])
   \<and> (f (request_origin req) req = Fulfilled (OArray xs) \<longrightarrow>
        originHeadersFromReq req (OriginFn f) =
          Fulfilled (Some (getOriginHeaders (request_origin req) (OArray xs)))
        \<and> originHeadersFromReq req (OriginFn f) = originHeadersFromReq req (Static (OArray xs)))"
proof -
  have a: "OStr ''*'' \<in> set xs \<and> (\<forall>x \<in> set xs. x \<noteq> OStr ''*'' \<longrightarrow> \<not> isOriginAllowed ro x) \<Longrightarrow>
        isOriginAllowed ro (OArray xs) = (ro = ''*'')"
  proof -
    assume h: "OStr ''*'' \<in> set xs \<and> (\<forall>x \<in> set xs. x \<noteq> OStr ''*'' \<longrightarrow> \<not> isOriginAllowed ro x)"
    show "isOriginAllowed ro (OArray xs) = (ro = ''*'')"
    proof
      assume "isOriginAllowed ro (OArray xs)"
      then obtain x where x: "x \<in> set xs" "isOriginAllowed ro x"
        by (auto simp: list_ex_iff)
      with h have "x = OStr ''*''" by auto
      with x(2) show "ro = ''*''" by simp
    next
      assume "ro = ''*''"
      then have "isOriginAllowed ro (OStr ''*'')" by simp
      moreover from h have "OStr ''*'' \<in> set xs" by simp
      ultimately have "\<exists>x \<in> set xs. isOriginAllowed ro x" by (rule bexI)
      then show "isOriginAllowed ro (OArray xs)"
        by (simp add: list_ex_iff)
    qed
  qed
  have ns: "\<And>s. OArray ys \<noteq> OStr s" for ys by simp
  have b: "ro \<noteq> ''*'' \<Longrightarrow>
      getOriginHeaders (Some ro) (OArray [OStr ''*'']) = [(''Vary'', ''Origin'')]"
    by (simp add: goh_other[OF ns])
  have c: "getOriginHeaders (Some ''*'') (OArray [OStr ''*'']) =
       [(''Access-Control-Allow-Origin'', ''*''), (''Vary'', ''Origin'')]"
    by (simp add: goh_other[OF ns])
  have d: "headers_values (getOriginHeaders reqOrigin (OArray xs))
       ''Access-Control-Allow-Origin'' =
       (case reqOrigin of
          Some r \<Rightarrow> if isOriginAllowed r (OArray xs) \<and> r \<noteq> [] then [r] else []
        | None \<Rightarrow> [])"
    by (simp add: goh_other[OF ns] name_simps split: option.splits)
  have e: "f (request_origin req) req = Fulfilled (OArray xs) \<Longrightarrow>
        originHeadersFromReq req (OriginFn f) =
          Fulfilled (Some (getOriginHeaders (request_origin req) (OArray xs)))
        \<and> originHeadersFromReq req (OriginFn f) = originHeadersFromReq req (Static (OArray xs))"
    by (simp add: originHeadersFromReq_def origin_value_def)
  have z: "isOriginAllowed ro (OStr ''*'') = (ro = ''*'')" by simp
  from z a b c d e show ?thesis by blast
qed

theorem wildcard_in_list_witness:
  "OStr ''*'' \<in> set [OStr ''https://foo.com'', OStr ''*'']
   \<and> \<not> isOriginAllowed ''https://vercel.com'' (OStr ''https://foo.com'')
   \<and> \<not> isOriginAllowed ''https://vercel.com'' (OArray [OStr ''https://foo.com'', OStr ''*''])
   \<and> isOriginAllowed ''*'' (OArray [OStr ''https://foo.com'', OStr ''*''])
   \<and> ''https://vercel.com'' \<noteq> ''*''
   \<and> getOriginHeaders (Some ''https://vercel.com'') (OArray [OStr ''*'']) =
       [(''Vary'', ''Origin'')]
   \<and> (\<lambda>ro rq. Fulfilled (OArray [OStr ''*''])) (request_origin example_get) example_get =
       Fulfilled (OArray [OStr ''*''])
   \<and> originHeadersFromReq example_get (OriginFn (\<lambda>ro rq. Fulfilled (OArray [OStr ''*'']))) =
       Fulfilled (Some [(''Vary'', ''Origin'')])"
proof -
  note T = wildcard_in_list
      [of "''https://vercel.com''" "[OStr ''https://foo.com'', OStr ''*'']"
          "Some ''https://vercel.com''" "\<lambda>ro rq. Fulfilled (OArray [OStr ''*''])" example_get]
  note U = wildcard_in_list
      [of "''*''" "[OStr ''https://foo.com'', OStr ''*'']"
          "Some ''https://vercel.com''" "\<lambda>ro rq. Fulfilled (OArray [OStr ''*''])" example_get]
  note V = wildcard_in_list
      [of "''https://vercel.com''" "[OStr ''*'']"
          "Some ''https://vercel.com''" "\<lambda>ro rq. Fulfilled (OArray [OStr ''*''])" example_get]
  have ne: "''https://vercel.com'' \<noteq> ''*''" by simp
  from T have a: "\<not> isOriginAllowed ''https://vercel.com''
      (OArray [OStr ''https://foo.com'', OStr ''*''])"
    by simp
  from U have b: "isOriginAllowed ''*'' (OArray [OStr ''https://foo.com'', OStr ''*''])"
    by simp
  from V ne have c: "getOriginHeaders (Some ''https://vercel.com'') (OArray [OStr ''*'']) =
       [(''Vary'', ''Origin'')]"
    by blast
  from V c have d: "originHeadersFromReq example_get
      (OriginFn (\<lambda>ro rq. Fulfilled (OArray [OStr ''*'']))) =
       Fulfilled (Some [(''Vary'', ''Origin'')])"
    by (simp add: example_get_origin)
  from a b c d ne show ?thesis by simp
qed

end
